theory Spec2Isabelle
  imports Complex_Main "HOL-Library.AList"
begin

section \<open>Quantization glue of \<open>llm/causallm/quant.py\<close>\<close>

text \<open>
  The module selects quantizer objects by a mode string, sequences the calibration
  passes Shift, Smooth and PTQ of a trainer, and looks up a small configuration
  dictionary by the model family. The numerical work is done by paddle and paddleslim;
  here their classes are data (constructor and arguments) and their effectful calls are
  entries of a log of library calls, in the order the module makes them.
\<close>

subsection \<open>Errors\<close>

text \<open>
  The two exception classes the module raises, with their messages, and the
  \<open>AttributeError\<close> of reading an attribute that an object does not have, with the
  name of the attribute.
\<close>

datatype error = ValueError string | NotImplementedError string | AttributeError string

subsection \<open>Models and \<open>get_ptq_model_config\<close>\<close>

text \<open>
  A pretrained model as \<open>get_ptq_model_config\<close> reads it: its attribute
  \<open>base_model_prefix\<close> and the text \<open>str(model)\<close>.
\<close>

datatype pretrained_model =
  PretrainedModel (base_model_prefix: string) (pretrained_str: string)

text \<open>
  The argument of \<open>get_ptq_model_config\<close>: a pretrained model itself, or a
  \<open>PrefixModelForCausalLM\<close>, which holds the pretrained model it wraps in its
  attribute \<open>model\<close> and has its own text. \<open>isinstance(model, PrefixModelForCausalLM)\<close>
  is the discriminator \<open>is_PrefixModelForCausalLM\<close>.
\<close>

datatype model =
    is_Pretrained: Pretrained (pretrained: pretrained_model)
  | is_PrefixModelForCausalLM: PrefixModelForCausalLM (wrapper_str: string) (model: pretrained_model)

text \<open>\<open>str(model)\<close>, which the f-string \<open>f"{model}"\<close> formats.\<close>

fun model_str :: "model \<Rightarrow> string" where
  "model_str (Pretrained p) = pretrained_str p"
| "model_str (PrefixModelForCausalLM s p) = s"

text \<open>
  Reading \<open>model.base_model_prefix\<close> on the argument itself. The wrapper has no such
  attribute of its own (lines 141 and 142 read it from \<open>model.model\<close>), so the read
  raises there.
\<close>

fun getattr_base_model_prefix :: "model \<Rightarrow> error + string" where
  "getattr_base_model_prefix (Pretrained p) = Inr (base_model_prefix p)"
| "getattr_base_model_prefix (PrefixModelForCausalLM s p) =
     Inl (AttributeError ''base_model_prefix'')"

text \<open>
  The returned dictionary, with its keys in insertion order:
  \<open>{"fused_qkv": ..., "parallel_ffn": ...}\<close>.
\<close>

type_synonym model_config = "(string \<times> bool) list"

text \<open>Lines 141 to 144: the prefix the dispatch is made on.\<close>

definition resolve_base_model_prefix :: "model \<Rightarrow> string" where
  "resolve_base_model_prefix m =
     (if is_PrefixModelForCausalLM m then base_model_prefix (model m)
      else base_model_prefix (pretrained m))"

text \<open>
  Lines 146 to 158. In the last branch the f-string of the message is evaluated before
  the \<open>ValueError\<close> is built: it reads \<open>model.base_model_prefix\<close> on the argument
  itself, and an error of that read is the error raised.
\<close>

definition get_ptq_model_config :: "model \<Rightarrow> error + model_config" where
  "get_ptq_model_config m =
     (let base_model_prefix' = resolve_base_model_prefix m in
      if base_model_prefix' \<in> set [''chatglm''] then
        Inl (NotImplementedError (model_str m @ '' does not support Shift or Smooth.''))
      else if base_model_prefix' = ''chatglm_v2'' then
        Inr [(''fused_qkv'', False), (''parallel_ffn'', False)]
      else if base_model_prefix' = ''bloom'' then
        Inr [(''fused_qkv'', True), (''parallel_ffn'', False)]
      else if base_model_prefix' = ''llama'' then
        Inr [(''fused_qkv'', False), (''parallel_ffn'', True)]
      else
        (case getattr_base_model_prefix m of
           Inl e \<Rightarrow> Inl e
         | Inr own \<Rightarrow>
             Inl (ValueError (''Unknown base_model_prefix: '' @ own
                    @ ''. Supported base_model_prefix list: chatglm, bloom, llama.''))))"

subsection \<open>Quantizers and the quantization configuration\<close>

text \<open>
  The quantizer factories the module constructs, each with the arguments it is given.
  \<open>dtype\<close> is the name of a paddle data type.
\<close>

datatype quanter_layer = FakeQuanterWithAbsMaxObserverLayer

datatype quanter =
    PACTQuanter (quanter_of: quanter_layer) (init_value: int) (dtype: string)
  | FakeQuanterChannelWiseAbsMaxObserver (bit_length: int) (dtype: string)
  | AbsmaxObserver
  | AbsMaxChannelWiseWeightObserver

text \<open>The layer classes that occur as keys of a configuration.\<close>

datatype layer_type =
    Linear
  | LoRALinear
  | QuantedLoRALinear
  | ColumnParallelLinear
  | RowParallelLinear
  | QuantizedColumnParallelLinear
  | QuantizedRowParallelLinear

text \<open>
  A \<open>QuantConfig\<close> as the module fills it: the two global quantizers of the
  constructor, the dictionary from a layer class to its quantized replacement, and the
  dictionary from a layer class to its pair of activation and weight quantizer. Both
  dictionaries are association lists in insertion order; storing under a key that is
  present replaces its value.
\<close>

record single_layer_config =
  activation :: "quanter option"
  weight :: "quanter option"

record quant_config =
  global_activation :: "quanter option"
  global_weight :: "quanter option"
  qat_layer_mapping :: "(layer_type \<times> layer_type) list"
  type2config :: "(layer_type \<times> single_layer_config) list"

definition QuantConfig :: "quanter option \<Rightarrow> quanter option \<Rightarrow> quant_config" where
  "QuantConfig a w =
     \<lparr>global_activation = a, global_weight = w, qat_layer_mapping = [], type2config = []\<rparr>"

definition add_qat_layer_mapping :: "layer_type \<Rightarrow> layer_type \<Rightarrow> quant_config \<Rightarrow> quant_config" where
  "add_qat_layer_mapping source target c =
     c\<lparr>qat_layer_mapping := AList.update source target (qat_layer_mapping c)\<rparr>"

text \<open>
  \<open>add_type_config\<close> takes one layer class or a list of them; a single class is the
  list of length one.
\<close>

fun add_type_config ::
  "layer_type list \<Rightarrow> quanter option \<Rightarrow> quanter option \<Rightarrow> quant_config \<Rightarrow> quant_config" where
  "add_type_config [] a w c = c"
| "add_type_config (l # ls) a w c =
     add_type_config ls a w
       (c\<lparr>type2config :=
            AList.update l \<lparr>activation = a, weight = w\<rparr> (type2config c)\<rparr>)"

subsection \<open>Arguments, transforms and the log of library calls\<close>

text \<open>The fields of \<open>quant_args\<close> that the module reads.\<close>

record quant_args =
  qat_type :: string
  shift_sampler :: string
  shift_all_linears :: bool
  shift_step :: int
  smooth_sampler :: string
  smooth_piecewise_search :: bool
  smooth_k_piece :: int
  smooth_search_piece :: bool
  smooth_all_linears :: bool
  smooth_step :: int
  ptq_step :: int

datatype sampler = EMASampler | MultiStepSampler

text \<open>A \<open>PieceWiseSearch\<close> object: its keyword arguments.\<close>

record piecewise_search =
  k_piece :: int
  bits_length :: int
  search_piece :: bool
  search_alpha_min :: real
  search_alpha_max :: real
  search_scale_min :: real
  search_scale_max :: real
  weight_quant_method :: string
  act_quant_method :: string

text \<open>
  A \<open>Shift\<close> or \<open>Smooth\<close> object: the model it is attached to and the
  arguments of its constructor. \<open>'m\<close> is the type of model objects and \<open>'c\<close> the
  type of the model configuration handed through.
\<close>

datatype ('m, 'c) transform =
    is_Shift: Shift (transform_model: 'm) (model_config_of: 'c) (sample_function: "sampler option")
      (all_linears: bool)
  | is_Smooth: Smooth (transform_model: 'm) (model_config_of: 'c) (alpha: real) (all_linears: bool)
      (sample_function: "sampler option") (search_function: "piecewise_search option")

text \<open>The trainer: the attribute \<open>model\<close> that \<open>apply_ptq\<close> assigns.\<close>

record 'm trainer =
  trainer_model :: 'm

text \<open>
  The calls with an effect on the model that the module makes into the libraries and
  into the trainer, with their arguments: constructing a transform (which attaches it to
  the model), \<open>update_weight\<close> on a transform, \<open>trainer.ptq_loop\<close> (logged with
  the trainer it is called on, the data loader, the description and
  \<open>max_eval_iters\<close>), and \<open>quantize\<close> and \<open>convert\<close> of a \<open>QAT\<close> or
  \<open>PTQ\<close> object built from a configuration (with the model and the flag
  \<open>inplace\<close>).
\<close>

datatype ('m, 'c, 'd) call =
    Transform_init "('m, 'c) transform"
  | Update_weight "('m, 'c) transform"
  | Ptq_loop "'m trainer" 'd string int
  | QAT_quantize quant_config 'm bool
  | PTQ_quantize quant_config 'm bool
  | PTQ_convert quant_config 'm bool

text \<open>
  The model object a call is made on. A library call with \<open>inplace=True\<close> that
  works in place returns this object.
\<close>

fun call_model :: "('m, 'c, 'd) call \<Rightarrow> 'm" where
  "call_model (Transform_init t) = transform_model t"
| "call_model (Update_weight t) = transform_model t"
| "call_model (Ptq_loop tr d s n) = trainer_model tr"
| "call_model (QAT_quantize c m i) = m"
| "call_model (PTQ_quantize c m i) = m"
| "call_model (PTQ_convert c m i) = m"

subsection \<open>\<open>create_qat_model\<close>\<close>

text \<open>
  Lines 41 to 63. \<open>ret\<close> gives the object a library call returns; \<open>calls\<close> is the
  log of calls made so far. The result is the returned model or the raised error, with
  the log afterwards.
\<close>

definition create_qat_model ::
  "(('m, 'c, 'd) call \<Rightarrow> 'm) \<Rightarrow> quant_args \<Rightarrow> 'm \<Rightarrow> string \<Rightarrow> ('m, 'c, 'd) call list
     \<Rightarrow> (error + 'm) \<times> ('m, 'c, 'd) call list" where
  "create_qat_model ret quant_args m dtype' calls =
     (let q_config = QuantConfig None None;
          q_config = add_qat_layer_mapping LoRALinear QuantedLoRALinear q_config;
          chosen =
            (if qat_type quant_args = ''A8W8'' then
               Inr (Some (PACTQuanter FakeQuanterWithAbsMaxObserverLayer 20 dtype'),
                    Some (FakeQuanterChannelWiseAbsMaxObserver 8 ''float32''))
             else if qat_type quant_args = ''W4'' then
               Inr (None,
                    Some (FakeQuanterChannelWiseAbsMaxObserver 4 ''float32''))
             else if qat_type quant_args = ''A8W4'' then
               Inr (Some (PACTQuanter FakeQuanterWithAbsMaxObserverLayer 20 dtype'),
                    Some (FakeQuanterChannelWiseAbsMaxObserver 4 ''float32''))
             else
               Inl (ValueError ''qat_type should be one of ['A8W8', 'W4', 'A8W4']''))
      in case chosen of
           Inl e \<Rightarrow> (Inl e, calls)
         | Inr (activation', weight') \<Rightarrow>
             (let q_config = add_type_config [LoRALinear] activation' weight' q_config;
                  q_config = add_type_config [Linear] activation' weight' q_config;
                  quantize = QAT_quantize q_config m True
              in (Inr (ret quantize), calls @ [quantize])))"

subsection \<open>\<open>apply_shift\<close>, \<open>apply_smooth\<close> and \<open>apply_ptq\<close>\<close>

text \<open>
  Lines 66 to 81. The function returns nothing; its effect is the calls it adds to the
  log. The final \<open>del\<close> unbinds local names only.
\<close>

definition apply_shift ::
  "quant_args \<Rightarrow> 'm trainer \<Rightarrow> 'd \<Rightarrow> 'c \<Rightarrow> ('m, 'c, 'd) call list \<Rightarrow> ('m, 'c, 'd) call list" where
  "apply_shift quant_args trainer ptq_dataloader ptq_model_config calls =
     (let shift_sampler' = (if shift_sampler quant_args = ''ema'' then Some EMASampler else None);
          shift = Shift (trainer_model trainer) ptq_model_config shift_sampler'
                    (shift_all_linears quant_args);
          calls = calls @ [Transform_init shift];
          calls = calls @ [Ptq_loop trainer ptq_dataloader ''Shift'' (shift_step quant_args)];
          calls = calls @ [Update_weight shift]
      in calls)"

text \<open>Lines 84 to 115.\<close>

definition apply_smooth ::
  "quant_args \<Rightarrow> 'm trainer \<Rightarrow> 'd \<Rightarrow> 'c \<Rightarrow> ('m, 'c, 'd) call list \<Rightarrow> ('m, 'c, 'd) call list" where
  "apply_smooth quant_args trainer ptq_dataloader ptq_model_config calls =
     (let smooth_sampler' =
            (if smooth_sampler quant_args = ''multi_step'' then Some MultiStepSampler else None);
          search_func =
            (if smooth_piecewise_search quant_args then
               Some \<lparr>k_piece = smooth_k_piece quant_args,
                     bits_length = 8,
                     search_piece = smooth_search_piece quant_args,
                     search_alpha_min = 0.2,
                     search_alpha_max = 0.8,
                     search_scale_min = 1.0,
                     search_scale_max = 5.0,
                     weight_quant_method = ''abs_max_channel_wise'',
                     act_quant_method = ''abs_max''\<rparr>
             else None);
          smooth = Smooth (trainer_model trainer) ptq_model_config 0.5
                     (smooth_all_linears quant_args) smooth_sampler' search_func;
          calls = calls @ [Transform_init smooth];
          calls = calls @ [Ptq_loop trainer ptq_dataloader ''Smooth'' (smooth_step quant_args)];
          calls = calls @ [Update_weight smooth]
      in calls)"

text \<open>
  Lines 118 to 137. The trainer is returned with its attribute \<open>model\<close> as the two
  assignments leave it.
\<close>

definition apply_ptq ::
  "(('m, 'c, 'd) call \<Rightarrow> 'm) \<Rightarrow> quant_args \<Rightarrow> 'm trainer \<Rightarrow> 'd \<Rightarrow> ('m, 'c, 'd) call list
     \<Rightarrow> 'm trainer \<times> ('m, 'c, 'd) call list" where
  "apply_ptq ret quant_args trainer ptq_dataloader calls =
     (let q_config = QuantConfig None None;
          act_quanter = AbsmaxObserver;
          weight_quanter = AbsMaxChannelWiseWeightObserver;
          q_config = add_qat_layer_mapping ColumnParallelLinear QuantizedColumnParallelLinear q_config;
          q_config = add_qat_layer_mapping RowParallelLinear QuantizedRowParallelLinear q_config;
          q_config = add_type_config
                       [Linear, ColumnParallelLinear, RowParallelLinear, QuantedLoRALinear]
                       (Some act_quanter) (Some weight_quanter) q_config;
          quantize = PTQ_quantize q_config (trainer_model trainer) True;
          calls = calls @ [quantize];
          trainer = trainer\<lparr>trainer_model := ret quantize\<rparr>;
          calls = calls @ [Ptq_loop trainer ptq_dataloader ''PTQ'' (ptq_step quant_args)];
          convert = PTQ_convert q_config (trainer_model trainer) True;
          calls = calls @ [convert];
          trainer = trainer\<lparr>trainer_model := ret convert\<rparr>
      in (trainer, calls))"

section \<open>Properties\<close>

subsection \<open>The configuration of each supported family\<close>

text \<open>
  C3. For every model whose resolved \<open>base_model_prefix\<close> is llama, bloom or
  chatglm_v2, \<open>get_ptq_model_config\<close> returns exactly the documented flags:
  llama gives fused_qkv False and parallel_ffn True, bloom gives fused_qkv True and
  parallel_ffn False, chatglm_v2 gives both False.
\<close>

theorem get_ptq_model_config_supported:
  "(resolve_base_model_prefix m = ''llama'' \<longrightarrow>
      get_ptq_model_config m = Inr [(''fused_qkv'', False), (''parallel_ffn'', True)]) \<and>
   (resolve_base_model_prefix m = ''bloom'' \<longrightarrow>
      get_ptq_model_config m = Inr [(''fused_qkv'', True), (''parallel_ffn'', False)]) \<and>
   (resolve_base_model_prefix m = ''chatglm_v2'' \<longrightarrow>
      get_ptq_model_config m = Inr [(''fused_qkv'', False), (''parallel_ffn'', False)])"
  by (simp add: get_ptq_model_config_def Let_def)

theorem get_ptq_model_config_supported_witness:
  "resolve_base_model_prefix (PrefixModelForCausalLM ''PrefixModelForCausalLM()''
       (PretrainedModel ''llama'' ''LlamaForCausalLM()'')) = ''llama'' \<and>
   get_ptq_model_config (PrefixModelForCausalLM ''PrefixModelForCausalLM()''
       (PretrainedModel ''llama'' ''LlamaForCausalLM()''))
     = Inr [(''fused_qkv'', False), (''parallel_ffn'', True)] \<and>
   resolve_base_model_prefix (Pretrained (PretrainedModel ''bloom'' ''BloomForCausalLM()'')) = ''bloom'' \<and>
   get_ptq_model_config (Pretrained (PretrainedModel ''bloom'' ''BloomForCausalLM()''))
     = Inr [(''fused_qkv'', True), (''parallel_ffn'', False)] \<and>
   resolve_base_model_prefix (Pretrained (PretrainedModel ''chatglm_v2'' ''ChatGLMv2ForCausalLM()'')) = ''chatglm_v2'' \<and>
   get_ptq_model_config (Pretrained (PretrainedModel ''chatglm_v2'' ''ChatGLMv2ForCausalLM()''))
     = Inr [(''fused_qkv'', False), (''parallel_ffn'', False)]"
  using get_ptq_model_config_supported
          [of "(PrefixModelForCausalLM ''PrefixModelForCausalLM()''
       (PretrainedModel ''llama'' ''LlamaForCausalLM()''))"]
        get_ptq_model_config_supported [of "(Pretrained (PretrainedModel ''bloom'' ''BloomForCausalLM()''))"]
        get_ptq_model_config_supported
          [of "(Pretrained (PretrainedModel ''chatglm_v2'' ''ChatGLMv2ForCausalLM()''))"]
  by (simp add: resolve_base_model_prefix_def)

subsection \<open>The unsupported families\<close>

text \<open>
  C4. The claim is that \<open>get_ptq_model_config\<close> fails with a
  \<open>NotImplementedError\<close> for the prefix chatglm and with a \<open>ValueError\<close> for
  every other unsupported prefix. For a \<open>PrefixModelForCausalLM\<close> around a model of
  an unsupported family the function fails with an \<open>AttributeError\<close> instead: the
  message of the \<open>ValueError\<close> reads \<open>model.base_model_prefix\<close> on the wrapper.
  The same family without the wrapper gets the \<open>ValueError\<close>.
\<close>

theorem get_ptq_model_config_wrapper_unsupported:
  "resolve_base_model_prefix (PrefixModelForCausalLM ''PrefixModelForCausalLM()''
       (PretrainedModel ''gpt'' ''GPTForCausalLM()'')) = ''gpt'' \<and>
   get_ptq_model_config (PrefixModelForCausalLM ''PrefixModelForCausalLM()''
       (PretrainedModel ''gpt'' ''GPTForCausalLM()''))
     = Inl (AttributeError ''base_model_prefix'') \<and>
   get_ptq_model_config (Pretrained (PretrainedModel ''gpt'' ''GPTForCausalLM()''))
     = Inl (ValueError
         ''Unknown base_model_prefix: gpt. Supported base_model_prefix list: chatglm, bloom, llama.'')"
  by (simp add: get_ptq_model_config_def resolve_base_model_prefix_def Let_def)

subsection \<open>The fields of a returned configuration\<close>

text \<open>
  C5, as stated: every configuration that \<open>get_ptq_model_config\<close> returns has
  three fields. The configuration returned for llama has two.
\<close>

theorem get_ptq_model_config_three_fields_counterexample:
  "get_ptq_model_config (Pretrained (PretrainedModel ''llama'' ''LlamaForCausalLM()''))
     = Inr [(''fused_qkv'', False), (''parallel_ffn'', True)] \<and>
   length [(''fused_qkv'', False), (''parallel_ffn'', True)] \<noteq> 3"
  by (simp add: get_ptq_model_config_def resolve_base_model_prefix_def Let_def)

text \<open>
  C5, amended. Every configuration that \<open>get_ptq_model_config\<close> returns has exactly
  two boolean fields, \<open>fused_qkv\<close> and \<open>parallel_ffn\<close>, and is keyed by the
  model-family identifier: every model with the same resolved prefix gets the same
  configuration.
\<close>

theorem get_ptq_model_config_two_fields:
  assumes "get_ptq_model_config m = Inr cfg"
  shows "map fst cfg = [''fused_qkv'', ''parallel_ffn''] \<and>
         (\<forall>m'. resolve_base_model_prefix m' = resolve_base_model_prefix m \<longrightarrow>
                get_ptq_model_config m' = Inr cfg)"
  using assms
  by (auto simp add: get_ptq_model_config_def Let_def split: if_splits sum.splits)

theorem get_ptq_model_config_two_fields_witness:
  "get_ptq_model_config (Pretrained (PretrainedModel ''bloom'' ''BloomForCausalLM()''))
     = Inr [(''fused_qkv'', True), (''parallel_ffn'', False)] \<and>
   map fst [(''fused_qkv'', True), (''parallel_ffn'', False)] = [''fused_qkv'', ''parallel_ffn''] \<and>
   get_ptq_model_config (PrefixModelForCausalLM ''PrefixModelForCausalLM()''
       (PretrainedModel ''bloom'' ''BloomForCausalLM()''))
     = Inr [(''fused_qkv'', True), (''parallel_ffn'', False)]"
proof -
  have h: "get_ptq_model_config (Pretrained (PretrainedModel ''bloom'' ''BloomForCausalLM()''))
             = Inr [(''fused_qkv'', True), (''parallel_ffn'', False)]"
    by (simp add: get_ptq_model_config_def resolve_base_model_prefix_def Let_def)
  from get_ptq_model_config_two_fields [OF h] h show ?thesis
    by (simp add: resolve_base_model_prefix_def)
qed

subsection \<open>Which attribute is dispatched on and which is reported\<close>




subsection \<open>The quantizers chosen by \<open>qat_type\<close>\<close>

text \<open>
  C1. For every valid \<open>qat_type\<close>, \<open>create_qat_model\<close> hands to
  \<open>QAT.quantize\<close> a configuration with the documented pair: for A8W8 the activation
  quantizer is a \<open>PACTQuanter\<close> over \<open>FakeQuanterWithAbsMaxObserverLayer\<close> with
  \<open>init_value\<close> 20 and the weight quantizer is the channel-wise abs-max fake quanter
  with \<open>bit_length\<close> 8; for W4 there is no activation quantizer and the weight
  quantizer has \<open>bit_length\<close> 4; for A8W4 the activation quantizer is the same
  \<open>PACTQuanter\<close> and the weight quantizer has \<open>bit_length\<close> 4. In each case the
  same pair is registered for \<open>LoRALinear\<close> and for \<open>nn.Linear\<close>.
\<close>

theorem create_qat_model_pairing:
  assumes "qat_type qa \<in> {''A8W8'', ''W4'', ''A8W4''}"
  shows "\<exists>c. create_qat_model ret qa m dt calls
               = (Inr (ret (QAT_quantize c m True)), calls @ [QAT_quantize c m True]) \<and>
           map_of (type2config c) LoRALinear = map_of (type2config c) Linear \<and>
           (qat_type qa = ''A8W8'' \<longrightarrow>
              map_of (type2config c) Linear =
                Some \<lparr>activation = Some (PACTQuanter FakeQuanterWithAbsMaxObserverLayer 20 dt),
                      weight = Some (FakeQuanterChannelWiseAbsMaxObserver 8 ''float32'')\<rparr>) \<and>
           (qat_type qa = ''W4'' \<longrightarrow>
              map_of (type2config c) Linear =
                Some \<lparr>activation = None,
                      weight = Some (FakeQuanterChannelWiseAbsMaxObserver 4 ''float32'')\<rparr>) \<and>
           (qat_type qa = ''A8W4'' \<longrightarrow>
              map_of (type2config c) Linear =
                Some \<lparr>activation = Some (PACTQuanter FakeQuanterWithAbsMaxObserverLayer 20 dt),
                      weight = Some (FakeQuanterChannelWiseAbsMaxObserver 4 ''float32'')\<rparr>)"
  using assms
  by (auto simp add: create_qat_model_def Let_def QuantConfig_def add_qat_layer_mapping_def)

theorem create_qat_model_pairing_witness:
  "qat_type \<lparr>qat_type = ''A8W8'', shift_sampler = ''ema'', shift_all_linears = False,
           shift_step = 8, smooth_sampler = ''none'', smooth_piecewise_search = False,
           smooth_k_piece = 6, smooth_search_piece = False, smooth_all_linears = False,
           smooth_step = 8, ptq_step = 8\<rparr> \<in> {''A8W8'', ''W4'', ''A8W4''} \<and>
   (\<exists>c. create_qat_model call_model
         \<lparr>qat_type = ''A8W8'', shift_sampler = ''ema'', shift_all_linears = False,
           shift_step = 8, smooth_sampler = ''none'', smooth_piecewise_search = False,
           smooth_k_piece = 6, smooth_search_piece = False, smooth_all_linears = False,
           smooth_step = 8, ptq_step = 8\<rparr>
         (PretrainedModel ''llama'' ''LlamaForCausalLM()'') ''float16'' ([] :: (pretrained_model, model_config, nat) call list)
       = (Inr (PretrainedModel ''llama'' ''LlamaForCausalLM()''), [QAT_quantize c (PretrainedModel ''llama'' ''LlamaForCausalLM()'') True]) \<and>
      map_of (type2config c) LoRALinear =
        Some \<lparr>activation = Some (PACTQuanter FakeQuanterWithAbsMaxObserverLayer 20 ''float16''),
              weight = Some (FakeQuanterChannelWiseAbsMaxObserver 8 ''float32'')\<rparr> \<and>
      map_of (type2config c) Linear =
        Some \<lparr>activation = Some (PACTQuanter FakeQuanterWithAbsMaxObserverLayer 20 ''float16''),
              weight = Some (FakeQuanterChannelWiseAbsMaxObserver 8 ''float32'')\<rparr>)"
  using create_qat_model_pairing
          [where qa = "\<lparr>qat_type = ''A8W8'', shift_sampler = ''ema'', shift_all_linears = False,
           shift_step = 8, smooth_sampler = ''none'', smooth_piecewise_search = False,
           smooth_k_piece = 6, smooth_search_piece = False, smooth_all_linears = False,
           smooth_step = 8, ptq_step = 8\<rparr>"
           and ret = call_model and m = "(PretrainedModel ''llama'' ''LlamaForCausalLM()'')"
           and dt = "''float16''" and calls = "[] :: (pretrained_model, model_config, nat) call list"]
  by auto

subsection \<open>The error of \<open>create_qat_model\<close>\<close>

text \<open>
  C2. \<open>create_qat_model\<close> raises a \<open>ValueError\<close> if and only if
  \<open>quant_args.qat_type\<close> is none of the strings A8W8, W4 and A8W4: outside the set
  it fails, inside the set the dispatch on \<open>qat_type\<close> does not raise.
\<close>

theorem create_qat_model_raises:
  "(isl (fst (create_qat_model ret qa m dt calls)) \<longleftrightarrow>
      qat_type qa \<notin> {''A8W8'', ''W4'', ''A8W4''}) \<and>
   ((\<exists>msg. fst (create_qat_model ret qa m dt calls) = Inl (ValueError msg)) \<longleftrightarrow>
      qat_type qa \<notin> {''A8W8'', ''W4'', ''A8W4''})"
  by (simp add: create_qat_model_def Let_def)

theorem create_qat_model_raises_witness:
  "(\<exists>msg. fst (create_qat_model call_model
         \<lparr>qat_type = ''a8w8'', shift_sampler = ''ema'', shift_all_linears = False,
           shift_step = 8, smooth_sampler = ''none'', smooth_piecewise_search = False,
           smooth_k_piece = 6, smooth_search_piece = False, smooth_all_linears = False,
           smooth_step = 8, ptq_step = 8\<rparr>
         (PretrainedModel ''llama'' ''LlamaForCausalLM()'') ''float16'' ([] :: (pretrained_model, model_config, nat) call list)) = Inl (ValueError msg)) \<and>
   \<not> isl (fst (create_qat_model call_model
         \<lparr>qat_type = ''A8W4'', shift_sampler = ''ema'', shift_all_linears = False,
           shift_step = 8, smooth_sampler = ''none'', smooth_piecewise_search = False,
           smooth_k_piece = 6, smooth_search_piece = False, smooth_all_linears = False,
           smooth_step = 8, ptq_step = 8\<rparr>
         (PretrainedModel ''llama'' ''LlamaForCausalLM()'') ''float16'' ([] :: (pretrained_model, model_config, nat) call list)))"
  using create_qat_model_raises
          [where qa = "\<lparr>qat_type = ''a8w8'', shift_sampler = ''ema'', shift_all_linears = False,
           shift_step = 8, smooth_sampler = ''none'', smooth_piecewise_search = False,
           smooth_k_piece = 6, smooth_search_piece = False, smooth_all_linears = False,
           smooth_step = 8, ptq_step = 8\<rparr>"
           and ret = call_model and m = "(PretrainedModel ''llama'' ''LlamaForCausalLM()'')"
           and dt = "''float16''" and calls = "[] :: (pretrained_model, model_config, nat) call list"]
        create_qat_model_raises
          [where qa = "\<lparr>qat_type = ''A8W4'', shift_sampler = ''ema'', shift_all_linears = False,
           shift_step = 8, smooth_sampler = ''none'', smooth_piecewise_search = False,
           smooth_k_piece = 6, smooth_search_piece = False, smooth_all_linears = False,
           smooth_step = 8, ptq_step = 8\<rparr>"
           and ret = call_model and m = "(PretrainedModel ''llama'' ''LlamaForCausalLM()'')"
           and dt = "''float16''" and calls = "[] :: (pretrained_model, model_config, nat) call list"]
  by simp

text \<open>
  C9. When \<open>create_qat_model\<close> raises on an invalid \<open>qat_type\<close>, the model is
  left as it was: the raise comes before \<open>qat.quantize\<close>, so the log of calls made
  on the model is the one before the call.
\<close>

theorem create_qat_model_raise_leaves_model:
  "(isl (fst (create_qat_model ret qa m dt calls)) \<longrightarrow>
      snd (create_qat_model ret qa m dt calls) = calls) \<and>
   (qat_type qa \<notin> {''A8W8'', ''W4'', ''A8W4''} \<longrightarrow>
      create_qat_model ret qa m dt calls
        = (Inl (ValueError ''qat_type should be one of ['A8W8', 'W4', 'A8W4']''), calls))"
  by (simp add: create_qat_model_def Let_def)

theorem create_qat_model_raise_leaves_model_witness:
  "isl (fst (create_qat_model call_model
         \<lparr>qat_type = ''W8'', shift_sampler = ''ema'', shift_all_linears = False,
           shift_step = 8, smooth_sampler = ''none'', smooth_piecewise_search = False,
           smooth_k_piece = 6, smooth_search_piece = False, smooth_all_linears = False,
           smooth_step = 8, ptq_step = 8\<rparr>
         (PretrainedModel ''llama'' ''LlamaForCausalLM()'') ''float16''
         [Ptq_loop \<lparr>trainer_model = PretrainedModel ''llama'' ''LlamaForCausalLM()''\<rparr>
            (0::nat) ''Shift'' 8 :: (pretrained_model, model_config, nat) call])) \<and>
   snd (create_qat_model call_model
         \<lparr>qat_type = ''W8'', shift_sampler = ''ema'', shift_all_linears = False,
           shift_step = 8, smooth_sampler = ''none'', smooth_piecewise_search = False,
           smooth_k_piece = 6, smooth_search_piece = False, smooth_all_linears = False,
           smooth_step = 8, ptq_step = 8\<rparr>
         (PretrainedModel ''llama'' ''LlamaForCausalLM()'') ''float16''
         [Ptq_loop \<lparr>trainer_model = PretrainedModel ''llama'' ''LlamaForCausalLM()''\<rparr>
            (0::nat) ''Shift'' 8 :: (pretrained_model, model_config, nat) call])
     = [Ptq_loop \<lparr>trainer_model = PretrainedModel ''llama'' ''LlamaForCausalLM()''\<rparr> 0 ''Shift'' 8]"
  using create_qat_model_raise_leaves_model
          [where qa = "\<lparr>qat_type = ''W8'', shift_sampler = ''ema'', shift_all_linears = False,
           shift_step = 8, smooth_sampler = ''none'', smooth_piecewise_search = False,
           smooth_k_piece = 6, smooth_search_piece = False, smooth_all_linears = False,
           smooth_step = 8, ptq_step = 8\<rparr>"
           and ret = call_model and m = "(PretrainedModel ''llama'' ''LlamaForCausalLM()'')"
           and dt = "''float16''"
           and calls = "[Ptq_loop \<lparr>trainer_model = PretrainedModel ''llama'' ''LlamaForCausalLM()''\<rparr>
                           (0::nat) ''Shift'' 8 :: (pretrained_model, model_config, nat) call]"]
  by simp

subsection \<open>The order of the calibration passes\<close>

text \<open>
  C6. In \<open>apply_shift\<close> and in \<open>apply_smooth\<close>, for every input, the calls
  added to the log are, in this order: the construction of the transform on
  \<open>trainer.model\<close>, the calibration loop \<open>trainer.ptq_loop\<close> with
  \<open>max_eval_iters\<close> equal to \<open>shift_step\<close> (respectively \<open>smooth_step\<close>),
  and last \<open>update_weight\<close> on that transform. So \<open>update_weight\<close> comes only
  after the loop and never before it.
\<close>

theorem calibration_before_update_weight:
  "(\<exists>t. is_Shift t \<and> transform_model t = trainer_model tr \<and>
        apply_shift qa tr dl cfg calls
          = calls @ [Transform_init t, Ptq_loop tr dl ''Shift'' (shift_step qa), Update_weight t]) \<and>
   (\<exists>t. is_Smooth t \<and> transform_model t = trainer_model tr \<and>
        apply_smooth qa tr dl cfg calls
          = calls @ [Transform_init t, Ptq_loop tr dl ''Smooth'' (smooth_step qa), Update_weight t])"
  by (simp add: apply_shift_def apply_smooth_def Let_def)

text \<open>
  C7. For every input, \<open>apply_ptq\<close> makes three calls in this order: \<open>quantize\<close>
  of \<open>trainer.model\<close> with a PTQ configuration and \<open>inplace=True\<close>, whose result
  is assigned to \<open>trainer.model\<close>; the calibration loop on the trainer so updated,
  with \<open>max_eval_iters\<close> equal to \<open>ptq_step\<close>; \<open>convert\<close> of
  \<open>trainer.model\<close> with the same configuration and \<open>inplace=True\<close>, whose result
  is assigned to \<open>trainer.model\<close>. When the two library calls return the object they
  were given, as a call in place does, \<open>trainer.model\<close> is the same object
  throughout.
\<close>

theorem apply_ptq_order:
  "(\<exists>c m1 m2.
      m1 = ret (PTQ_quantize c (trainer_model tr) True) \<and>
      m2 = ret (PTQ_convert c m1 True) \<and>
      apply_ptq ret qa tr dl calls
        = (tr\<lparr>trainer_model := m2\<rparr>,
           calls @ [PTQ_quantize c (trainer_model tr) True,
                    Ptq_loop (tr\<lparr>trainer_model := m1\<rparr>) dl ''PTQ'' (ptq_step qa),
                    PTQ_convert c m1 True])) \<and>
   ((\<forall>c. ret (PTQ_quantize c (trainer_model tr) True) = trainer_model tr \<and>
         ret (PTQ_convert c (trainer_model tr) True) = trainer_model tr) \<longrightarrow>
      fst (apply_ptq ret qa tr dl calls) = tr \<and>
      map call_model (drop (length calls) (snd (apply_ptq ret qa tr dl calls)))
        = [trainer_model tr, trainer_model tr, trainer_model tr])"
  by (simp add: apply_ptq_def Let_def)

theorem apply_ptq_order_witness:
  "(\<forall>c. call_model (PTQ_quantize c (trainer_model \<lparr>trainer_model = PretrainedModel ''llama'' ''LlamaForCausalLM()''\<rparr>) True :: (pretrained_model, model_config, nat) call)
          = trainer_model \<lparr>trainer_model = PretrainedModel ''llama'' ''LlamaForCausalLM()''\<rparr> \<and>
        call_model (PTQ_convert c (trainer_model \<lparr>trainer_model = PretrainedModel ''llama'' ''LlamaForCausalLM()''\<rparr>) True :: (pretrained_model, model_config, nat) call)
          = trainer_model \<lparr>trainer_model = PretrainedModel ''llama'' ''LlamaForCausalLM()''\<rparr>) \<and>
   fst (apply_ptq call_model
          \<lparr>qat_type = ''A8W8'', shift_sampler = ''ema'', shift_all_linears = False,
           shift_step = 8, smooth_sampler = ''none'', smooth_piecewise_search = False,
           smooth_k_piece = 6, smooth_search_piece = False, smooth_all_linears = False,
           smooth_step = 8, ptq_step = 8\<rparr>
          \<lparr>trainer_model = PretrainedModel ''llama'' ''LlamaForCausalLM()''\<rparr> (0::nat) ([] :: (pretrained_model, model_config, nat) call list))
     = \<lparr>trainer_model = PretrainedModel ''llama'' ''LlamaForCausalLM()''\<rparr> \<and>
   map call_model (drop (length ([] :: (pretrained_model, model_config, nat) call list)) (snd (apply_ptq call_model
          \<lparr>qat_type = ''A8W8'', shift_sampler = ''ema'', shift_all_linears = False,
           shift_step = 8, smooth_sampler = ''none'', smooth_piecewise_search = False,
           smooth_k_piece = 6, smooth_search_piece = False, smooth_all_linears = False,
           smooth_step = 8, ptq_step = 8\<rparr>
          \<lparr>trainer_model = PretrainedModel ''llama'' ''LlamaForCausalLM()''\<rparr> (0::nat) ([] :: (pretrained_model, model_config, nat) call list))))
     = [PretrainedModel ''llama'' ''LlamaForCausalLM()'',
        PretrainedModel ''llama'' ''LlamaForCausalLM()'',
        PretrainedModel ''llama'' ''LlamaForCausalLM()'']"
  using apply_ptq_order
          [where ret = "call_model :: (pretrained_model, model_config, nat) call \<Rightarrow> pretrained_model"
           and qa = "\<lparr>qat_type = ''A8W8'', shift_sampler = ''ema'', shift_all_linears = False,
           shift_step = 8, smooth_sampler = ''none'', smooth_piecewise_search = False,
           smooth_k_piece = 6, smooth_search_piece = False, smooth_all_linears = False,
           smooth_step = 8, ptq_step = 8\<rparr>"
           and tr = "\<lparr>trainer_model = PretrainedModel ''llama'' ''LlamaForCausalLM()''\<rparr>"
           and dl = "0::nat" and calls = "[] :: (pretrained_model, model_config, nat) call list"]
  by simp

subsection \<open>The search function of \<open>apply_smooth\<close>\<close>

text \<open>
  C8. In \<open>apply_smooth\<close> the \<open>Smooth\<close> transform gets a piecewise search function
  if and only if \<open>quant_args.smooth_piecewise_search\<close> is true. The search function
  then has alpha from 0.2 to 0.8, scale from 1.0 to 5.0, \<open>k_piece\<close> equal to
  \<open>smooth_k_piece\<close> and \<open>search_piece\<close> equal to \<open>smooth_search_piece\<close>; when
  the flag is false the search function is \<open>None\<close>. The decimal literals of the
  source are the same decimals here.
\<close>

theorem apply_smooth_search_function:
  "\<exists>t. is_Smooth t \<and>
        apply_smooth qa tr dl cfg calls
          = calls @ [Transform_init t, Ptq_loop tr dl ''Smooth'' (smooth_step qa), Update_weight t] \<and>
        (search_function t \<noteq> None \<longleftrightarrow> smooth_piecewise_search qa) \<and>
        (smooth_piecewise_search qa \<longrightarrow>
           (\<exists>s. search_function t = Some s \<and>
                search_alpha_min s = 0.2 \<and> search_alpha_max s = 0.8 \<and>
                search_scale_min s = 1.0 \<and> search_scale_max s = 5.0 \<and>
                k_piece s = smooth_k_piece qa \<and> search_piece s = smooth_search_piece qa)) \<and>
        (\<not> smooth_piecewise_search qa \<longrightarrow> search_function t = None)"
  by (simp add: apply_smooth_def Let_def)

theorem apply_smooth_search_function_witness:
  "smooth_piecewise_search \<lparr>qat_type = ''A8W8'', shift_sampler = ''ema'', shift_all_linears = False,
           shift_step = 8, smooth_sampler = ''none'', smooth_piecewise_search = True,
           smooth_k_piece = 6, smooth_search_piece = False, smooth_all_linears = False,
           smooth_step = 8, ptq_step = 8\<rparr> \<and>
   (\<exists>t s. apply_smooth
         \<lparr>qat_type = ''A8W8'', shift_sampler = ''ema'', shift_all_linears = False,
           shift_step = 8, smooth_sampler = ''none'', smooth_piecewise_search = True,
           smooth_k_piece = 6, smooth_search_piece = False, smooth_all_linears = False,
           smooth_step = 8, ptq_step = 8\<rparr>
         \<lparr>trainer_model = PretrainedModel ''llama'' ''LlamaForCausalLM()''\<rparr> (0::nat) [(''fused_qkv'', False), (''parallel_ffn'', True)] []
       = [Transform_init t,
          Ptq_loop \<lparr>trainer_model = PretrainedModel ''llama'' ''LlamaForCausalLM()''\<rparr> 0 ''Smooth'' 8,
          Update_weight t] \<and>
      search_function t = Some s \<and>
      search_alpha_min s = 0.2 \<and> search_alpha_max s = 0.8 \<and>
      search_scale_min s = 1.0 \<and> search_scale_max s = 5.0 \<and>
      k_piece s = 6 \<and> search_piece s = False) \<and>
   \<not> smooth_piecewise_search \<lparr>qat_type = ''A8W8'', shift_sampler = ''ema'', shift_all_linears = False,
           shift_step = 8, smooth_sampler = ''none'', smooth_piecewise_search = False,
           smooth_k_piece = 6, smooth_search_piece = False, smooth_all_linears = False,
           smooth_step = 8, ptq_step = 8\<rparr> \<and>
   (\<exists>t. apply_smooth
         \<lparr>qat_type = ''A8W8'', shift_sampler = ''ema'', shift_all_linears = False,
           shift_step = 8, smooth_sampler = ''none'', smooth_piecewise_search = False,
           smooth_k_piece = 6, smooth_search_piece = False, smooth_all_linears = False,
           smooth_step = 8, ptq_step = 8\<rparr>
         \<lparr>trainer_model = PretrainedModel ''llama'' ''LlamaForCausalLM()''\<rparr> (0::nat) [(''fused_qkv'', False), (''parallel_ffn'', True)] []
       = [Transform_init t,
          Ptq_loop \<lparr>trainer_model = PretrainedModel ''llama'' ''LlamaForCausalLM()''\<rparr> 0 ''Smooth'' 8,
          Update_weight t] \<and>
      search_function t = None)"
  using apply_smooth_search_function
          [where qa = "\<lparr>qat_type = ''A8W8'', shift_sampler = ''ema'', shift_all_linears = False,
           shift_step = 8, smooth_sampler = ''none'', smooth_piecewise_search = True,
           smooth_k_piece = 6, smooth_search_piece = False, smooth_all_linears = False,
           smooth_step = 8, ptq_step = 8\<rparr>"
           and tr = "\<lparr>trainer_model = PretrainedModel ''llama'' ''LlamaForCausalLM()''\<rparr>"
           and dl = "0::nat" and cfg = "[(''fused_qkv'', False), (''parallel_ffn'', True)]"
           and calls = "[]"]
        apply_smooth_search_function
          [where qa = "\<lparr>qat_type = ''A8W8'', shift_sampler = ''ema'', shift_all_linears = False,
           shift_step = 8, smooth_sampler = ''none'', smooth_piecewise_search = False,
           smooth_k_piece = 6, smooth_search_piece = False, smooth_all_linears = False,
           smooth_step = 8, ptq_step = 8\<rparr>"
           and tr = "\<lparr>trainer_model = PretrainedModel ''llama'' ''LlamaForCausalLM()''\<rparr>"
           and dl = "0::nat" and cfg = "[(''fused_qkv'', False), (''parallel_ffn'', True)]"
           and calls = "[]"]
  by auto

end
